theory Spec2Isabelle
  imports Complex_Main "HOL-Library.Sublist"
begin

section \<open>The host: what psutil and the clock answer\<close>

text \<open>
  The program of \<^verbatim>\<open>rede.py\<close> reads everything it knows from the host: the
  per-interface byte counters (\<^verbatim>\<open>psutil.net_io_counters(pernic=True)\<close>), the
  per-interface link status (\<^verbatim>\<open>psutil.net_if_stats()\<close>), the connection tables
  (\<^verbatim>\<open>psutil.net_connections\<close>), the wall clock (\<^verbatim>\<open>time.time()\<close>) and
  \<^verbatim>\<open>time.sleep\<close>. The model takes the host's answers as data.

  Python integers are \<open>int\<close>. Python floats are modelled by the real numbers they
  approximate: the rounding of floating-point arithmetic is not modelled. Python
  dictionaries are association lists, since \<^verbatim>\<open>auto_select_interface\<close> depends on the
  order of the keys.
\<close>

record snetio =
  bytes_sent :: int
  bytes_recv :: int

record snicstats =
  isup :: bool
  duplex :: int
  speed :: int
  mtu :: int
  flags :: string

type_synonym io_counters = "(string \<times> snetio) list"
type_synonym nic_stats = "(string \<times> snicstats) list"

text \<open>
  A call into psutil or \<^verbatim>\<open>time.sleep\<close> either returns or raises. The handlers of
  \<^verbatim>\<open>monitor_network_traffic\<close> distinguish \<^verbatim>\<open>KeyboardInterrupt\<close> from the
  subclasses of \<^verbatim>\<open>Exception\<close>, and so does the model. An interrupt of the user
  is delivered at a call: into psutil, \<^verbatim>\<open>time.sleep\<close>, or
  \<^verbatim>\<open>logging.debug\<close> (lines 134, 155 and 156). An interrupt delivered between two
  calls leaves the lists as one delivered at a neighbouring call does, the three appends
  of lines 147 to 149 apart, which the model takes together. \<^verbatim>\<open>time.time()\<close> and
  \<^verbatim>\<open>send_alert\<close> always return.
\<close>

datatype exn = KeyboardInterrupt | Exception string

type_synonym 'a host_call = "exn + 'a"

text \<open>One constructor for each call site of \<^verbatim>\<open>send_alert\<close>, in source order.\<close>

datatype alert =
    Alert_no_active_interface
  | Alert_interval_not_positive
  | Alert_interface_not_found string
  | Alert_status_unavailable string
  | Alert_connection_interrupted string
  | Alert_not_found_during_run string
  | Alert_interrupted_by_user
  | Alert_error exn

definition send_alert :: "alert \<Rightarrow> alert list \<Rightarrow> alert list" where
  "send_alert message alog = alog @ [message]"

section \<open>Listing and selecting interfaces\<close>

text \<open>
  \<^verbatim>\<open>get_available_interfaces\<close> (lines 23 to 31): the keys of the counter table,
  with the first \<^verbatim>\<open>'lo'\<close> removed. Its argument is the host's answer to the query
  of line 28.
\<close>

definition get_available_interfaces :: "io_counters host_call \<Rightarrow> string list host_call" where
  "get_available_interfaces q =
     (case q of
        Inl e \<Rightarrow> Inl e
      | Inr counters \<Rightarrow>
          (let interfaces = map fst counters
           in Inr (if ''lo'' \<in> set interfaces then remove1 ''lo'' interfaces else interfaces)))"

text \<open>
  \<^verbatim>\<open>auto_select_interface\<close> (lines 33 to 44). The loop of line 38 queries the host
  again for every candidate (line 39); \<open>q i\<close> is the host's answer in iteration \<open>i\<close>.
  A named tuple is truthy, so \<^verbatim>\<open>if stats and (...)\<close> tests that the lookup found an
  entry. The function has no handler: an exception of the host propagates.
\<close>

fun auto_select_loop ::
  "(nat \<Rightarrow> io_counters host_call) \<Rightarrow> nat \<Rightarrow> string list \<Rightarrow> alert list
     \<Rightarrow> (exn + string option) \<times> alert list" where
  "auto_select_loop q i [] alog = (Inr None, send_alert Alert_no_active_interface alog)"
| "auto_select_loop q i (interface # rest) alog =
     (case q i of
        Inl e \<Rightarrow> (Inl e, alog)
      | Inr counters \<Rightarrow>
          (case map_of counters interface of
             None \<Rightarrow> auto_select_loop q (Suc i) rest alog
           | Some stats \<Rightarrow>
               if bytes_sent stats > 0 \<or> bytes_recv stats > 0
               then (Inr (Some interface), alog)
               else auto_select_loop q (Suc i) rest alog))"

definition auto_select_interface ::
  "io_counters host_call \<Rightarrow> (nat \<Rightarrow> io_counters host_call)
     \<Rightarrow> (exn + string option) \<times> alert list" where
  "auto_select_interface q0 q =
     (case get_available_interfaces q0 of
        Inl e \<Rightarrow> (Inl e, [])
      | Inr available \<Rightarrow> auto_select_loop q 0 available [])"

section \<open>The sampling loop\<close>

text \<open>
  The host's answers during one iteration of the loop of line 111, one field for each
  call the iteration can make, named by the source line of the call.
  \<^verbatim>\<open>net_connections\<close> is read only through \<^verbatim>\<open>len\<close>, so its answer is the
  number of connections. The three \<open>tk_debug\<close> fields say whether the call of
  \<^verbatim>\<open>logging.debug\<close> returned or was interrupted.
\<close>

record tick =
  tk_time :: real
  tk_if_stats_113 :: "nic_stats host_call"
  tk_io_counters_116 :: "io_counters host_call"
  tk_io_counters_124 :: "io_counters host_call"
  tk_io_counters_127 :: "io_counters host_call"
  tk_debug_134 :: "unit host_call"
  tk_tcp_143 :: "nat host_call"
  tk_udp_144 :: "nat host_call"
  tk_if_stats_145 :: "nic_stats host_call"
  tk_debug_155 :: "unit host_call"
  tk_debug_156 :: "unit host_call"
  tk_sleep_158 :: "unit host_call"

record host =
  h_io_counters_96 :: "io_counters host_call"
  h_io_counters_99 :: "io_counters host_call"
  h_time_107 :: real
  h_ticks :: "tick list"

text \<open>The variables the loop updates, and the alerts sent so far.\<close>

record loop_state =
  time_values :: "real list"
  bw_values :: "real list"
  tcp_values :: "nat list"
  udp_values :: "nat list"
  icmp_values :: "nat list"
  initial_bytes_sent :: int
  initial_bytes_recv :: int
  alerts :: "alert list"

text \<open>
  Python's \<^verbatim>\<open>round(x, 1)\<close>: the nearest multiple of one tenth, a tie going to the
  even one.
\<close>

definition round1 :: "real \<Rightarrow> real" where
  "round1 x =
     (let y = x * 10; f = \<lfloor>y\<rfloor>; d = y - of_int f
      in of_int (if d < 1 / 2 then f else if 1 / 2 < d then f + 1
                 else if even f then f else f + 1) / 10)"

text \<open>Lines 137 to 139.\<close>

definition sent_bw :: "int \<Rightarrow> int \<Rightarrow> real \<Rightarrow> real" where
  "sent_bw current_bytes_sent initial_sent interval =
     of_int ((current_bytes_sent - initial_sent) * 8) / (interval * 1024 * 1024)"

definition recv_bw :: "int \<Rightarrow> int \<Rightarrow> real \<Rightarrow> real" where
  "recv_bw current_bytes_recv initial_recv interval =
     of_int ((current_bytes_recv - initial_recv) * 8) / (interval * 1024 * 1024)"

definition total_bw :: "snetio \<Rightarrow> loop_state \<Rightarrow> real \<Rightarrow> real" where
  "total_bw current_stats st interval =
     sent_bw (bytes_sent current_stats) (initial_bytes_sent st) interval
       + recv_bw (bytes_recv current_stats) (initial_bytes_recv st) interval"

text \<open>
  Line 149: \<^verbatim>\<open>'icmp' in _\<close> on a named tuple \<^verbatim>\<open>snicstats\<close> compares the string
  with every field; only \<^verbatim>\<open>flags\<close> is a string.
\<close>

definition icmp_count :: "nic_stats \<Rightarrow> nat" where
  "icmp_count icmp_stats = length (filter (\<lambda>(name, s). flags s = ''icmp'') icmp_stats)"

text \<open>
  How one iteration ends: the body ran to the end of \<^verbatim>\<open>time.sleep\<close>
  (\<open>Next\<close>), the loop condition of line 111 was false (\<open>Finished\<close>), a
  \<^verbatim>\<open>break\<close> was taken (with its source line), or a host call raised (with the
  exception and the source line of the call).
\<close>

datatype step =
    Next loop_state
  | Finished loop_state
  | Broke nat loop_state
  | Raised exn nat loop_state

fun state_of :: "step \<Rightarrow> loop_state" where
  "state_of (Next st) = st"
| "state_of (Finished st) = st"
| "state_of (Broke l st) = st"
| "state_of (Raised e l st) = st"

definition alert_to :: "alert \<Rightarrow> loop_state \<Rightarrow> loop_state" where
  "alert_to message st = st\<lparr>alerts := send_alert message (alerts st)\<rparr>"

text \<open>Lines 111 to 158, one iteration.\<close>

definition loop_body ::
  "string \<Rightarrow> real \<Rightarrow> real \<Rightarrow> bool \<Rightarrow> real \<Rightarrow> tick \<Rightarrow> loop_state \<Rightarrow> step" where
  "loop_body interface duration interval force_monitor start_time t st =
     (let elapsed = tk_time t - start_time in
      if \<not> elapsed < duration then Finished st
      else
        case tk_if_stats_113 t of
          Inl e \<Rightarrow> Raised e 113 st
        | Inr nics \<Rightarrow>
           (case map_of nics interface of
              None \<Rightarrow>
                (let st1 = alert_to (Alert_status_unavailable interface) st in
                 case get_available_interfaces (tk_io_counters_116 t) of
                   Inl e \<Rightarrow> Raised e 116 st1
                 | Inr available \<Rightarrow> Broke 117 st1)
            | Some interface_stats \<Rightarrow>
                if \<not> isup interface_stats \<and> \<not> force_monitor
                then Broke 120 (alert_to (Alert_connection_interrupted interface) st)
                else
                  (let st2 = st\<lparr>time_values := time_values st @ [round1 elapsed]\<rparr> in
                   case tk_io_counters_124 t of
                     Inl e \<Rightarrow> Raised e 124 st2
                   | Inr counters \<Rightarrow>
                      (case map_of counters interface of
                         None \<Rightarrow>
                           (let st3 = alert_to (Alert_not_found_during_run interface) st2 in
                            case get_available_interfaces (tk_io_counters_127 t) of
                              Inl e \<Rightarrow> Raised e 127 st3
                            | Inr available \<Rightarrow> Broke 128 st3)
                       | Some current_stats \<Rightarrow>
                          (case tk_debug_134 t of
                             Inl e \<Rightarrow> Raised e 134 st2
                           | Inr logged \<Rightarrow>
                           (let st4 = st2\<lparr>bw_values :=
                                  bw_values st2 @ [total_bw current_stats st2 interval]\<rparr> in
                            case tk_tcp_143 t of
                              Inl e \<Rightarrow> Raised e 143 st4
                            | Inr tcp_stats \<Rightarrow>
                               (case tk_udp_144 t of
                                  Inl e \<Rightarrow> Raised e 144 st4
                                | Inr udp_stats \<Rightarrow>
                                   (case tk_if_stats_145 t of
                                      Inl e \<Rightarrow> Raised e 145 st4
                                    | Inr icmp_stats \<Rightarrow>
                                       (let st5 = st4\<lparr>
                                              tcp_values := tcp_values st4 @ [tcp_stats],
                                              udp_values := udp_values st4 @ [udp_stats],
                                              icmp_values :=
                                                icmp_values st4 @ [icmp_count icmp_stats],
                                              initial_bytes_sent := bytes_sent current_stats,
                                              initial_bytes_recv := bytes_recv current_stats\<rparr> in
                                        case tk_debug_155 t of
                                          Inl e \<Rightarrow> Raised e 155 st5
                                        | Inr logged_bw \<Rightarrow>
                                           (case tk_debug_156 t of
                                              Inl e \<Rightarrow> Raised e 156 st5
                                            | Inr logged_counts \<Rightarrow>
                                               (case tk_sleep_158 t of
                                                  Inl e \<Rightarrow> Raised e 158 st5
                                                | Inr slept \<Rightarrow> Next st5)))))))))))"

text \<open>
  The loop runs over the host's answers, one \<open>tick\<close> for each evaluation of the loop
  condition. The answers are a finite list: the result \<open>Next st\<close> says that the list
  ended while the loop was still running, in state \<open>st\<close>.
\<close>

fun monitor_loop ::
  "string \<Rightarrow> real \<Rightarrow> real \<Rightarrow> bool \<Rightarrow> real \<Rightarrow> tick list \<Rightarrow> loop_state \<Rightarrow> step" where
  "monitor_loop interface duration interval force_monitor start_time [] st = Next st"
| "monitor_loop interface duration interval force_monitor start_time (t # ts) st =
     (case loop_body interface duration interval force_monitor start_time t st of
        Next st' \<Rightarrow> monitor_loop interface duration interval force_monitor start_time ts st'
      | Finished st' \<Rightarrow> Finished st'
      | Broke l st' \<Rightarrow> Broke l st'
      | Raised e l st' \<Rightarrow> Raised e l st')"

section \<open>monitor\_network\_traffic\<close>

type_synonym samples = "real list \<times> real list \<times> nat list \<times> nat list \<times> nat list"

definition returned :: "loop_state \<Rightarrow> samples" where
  "returned st = (time_values st, bw_values st, tcp_values st, udp_values st, icmp_values st)"

text \<open>
  Lines 159 to 164: the two handlers and the \<^verbatim>\<open>return\<close>. The result is what the
  caller gets, the returned tuple (\<open>Inr\<close>) or a propagated exception (\<open>Inl\<close>),
  with the alerts sent.
\<close>

fun handlers :: "step \<Rightarrow> (exn + samples) \<times> alert list" where
  "handlers (Raised KeyboardInterrupt l st) =
     (Inr (returned st), send_alert Alert_interrupted_by_user (alerts st))"
| "handlers (Raised (Exception m) l st) =
     (Inr (returned st), send_alert (Alert_error (Exception m)) (alerts st))"
| "handlers s = (Inr (returned (state_of s)), alerts (state_of s))"

definition initial_state :: "snetio \<Rightarrow> loop_state" where
  "initial_state initial_stats =
     \<lparr>time_values = [], bw_values = [], tcp_values = [], udp_values = [], icmp_values = [],
      initial_bytes_sent = bytes_sent initial_stats,
      initial_bytes_recv = bytes_recv initial_stats,
      alerts = []\<rparr>"

text \<open>
  Lines 79 to 164. The queries of lines 96 and 99 are outside the \<^verbatim>\<open>try\<close>: an
  exception there reaches the caller. The result is \<open>None\<close> when the host's answers
  end before the loop does.
\<close>

definition monitor_network_traffic ::
  "host \<Rightarrow> string \<Rightarrow> real \<Rightarrow> real \<Rightarrow> bool \<Rightarrow> ((exn + samples) \<times> alert list) option" where
  "monitor_network_traffic h interface duration interval force_monitor =
     (if interval \<le> 0
      then Some (Inr ([], [], [], [], []), send_alert Alert_interval_not_positive [])
      else
        case h_io_counters_96 h of
          Inl e \<Rightarrow> Some (Inl e, [])
        | Inr stats \<Rightarrow>
           (case map_of stats interface of
              None \<Rightarrow>
                (let alog = send_alert (Alert_interface_not_found interface) [] in
                 case get_available_interfaces (h_io_counters_99 h) of
                   Inl e \<Rightarrow> Some (Inl e, alog)
                 | Inr available \<Rightarrow> Some (Inr ([], [], [], [], []), alog))
            | Some initial_stats \<Rightarrow>
                (case monitor_loop interface duration interval force_monitor (h_time_107 h)
                        (h_ticks h) (initial_state initial_stats) of
                   Next st \<Rightarrow> None
                 | Finished st \<Rightarrow> Some (handlers (Finished st))
                 | Broke l st \<Rightarrow> Some (handlers (Broke l st))
                 | Raised e l st \<Rightarrow> Some (handlers (Raised e l st)))))"

section \<open>Example hosts\<close>

text \<open>
  A host with the loopback interface and \<^verbatim>\<open>eth0\<close>, used to run the definitions on
  concrete answers.
\<close>

definition nic :: "bool \<Rightarrow> snicstats" where
  "nic up = \<lparr>isup = up, duplex = 2, speed = 1000, mtu = 1500, flags = ''up,running''\<rparr>"

definition counters_of :: "int \<Rightarrow> int \<Rightarrow> io_counters" where
  "counters_of sent recv =
     [(''lo'', \<lparr>bytes_sent = 10, bytes_recv = 10\<rparr>),
      (''eth0'', \<lparr>bytes_sent = sent, bytes_recv = recv\<rparr>)]"

definition tick_of :: "real \<Rightarrow> bool \<Rightarrow> int \<Rightarrow> int \<Rightarrow> tick" where
  "tick_of clock up sent recv =
     \<lparr>tk_time = clock,
      tk_if_stats_113 = Inr [(''lo'', nic True), (''eth0'', nic up)],
      tk_io_counters_116 = Inr (counters_of sent recv),
      tk_io_counters_124 = Inr (counters_of sent recv),
      tk_io_counters_127 = Inr (counters_of sent recv),
      tk_debug_134 = Inr (),
      tk_tcp_143 = Inr 3,
      tk_udp_144 = Inr 2,
      tk_if_stats_145 = Inr [(''lo'', nic True), (''eth0'', nic up)],
      tk_debug_155 = Inr (),
      tk_debug_156 = Inr (),
      tk_sleep_158 = Inr ()\<rparr>"

definition host_of :: "tick list \<Rightarrow> host" where
  "host_of ticks =
     \<lparr>h_io_counters_96 = Inr (counters_of 0 0),
      h_io_counters_99 = Inr (counters_of 0 0),
      h_time_107 = 100,
      h_ticks = ticks\<rparr>"

section \<open>Notions used to state the properties\<close>


text \<open>
  The counters of the interface as an iteration reads them at line 124, and the reading
  that an iteration after the completed iterations \<open>pre\<close> compares its own with:
  the one of line 103 when it is the first iteration, the one of the iteration before it
  otherwise.
\<close>

definition reading :: "string \<Rightarrow> tick \<Rightarrow> snetio option" where
  "reading interface t =
     (case tk_io_counters_124 t of Inl e \<Rightarrow> None | Inr counters \<Rightarrow> map_of counters interface)"

definition previous_reading :: "string \<Rightarrow> snetio \<Rightarrow> tick list \<Rightarrow> snetio option" where
  "previous_reading interface initial_stats pre =
     (if pre = [] then Some initial_stats else reading interface (last pre))"

text \<open>
  The five lists when an iteration that began with the variables \<open>st\<close> has passed
  line 122, line 140 and line 149.
\<close>

definition lists_122 :: "loop_state \<Rightarrow> real \<Rightarrow> samples" where
  "lists_122 st elapsed =
     (time_values st @ [round1 elapsed], bw_values st, tcp_values st, udp_values st,
      icmp_values st)"

definition lists_140 :: "loop_state \<Rightarrow> real \<Rightarrow> real \<Rightarrow> samples" where
  "lists_140 st elapsed rate =
     (time_values st @ [round1 elapsed], bw_values st @ [rate], tcp_values st,
      udp_values st, icmp_values st)"

definition lists_149 :: "loop_state \<Rightarrow> real \<Rightarrow> real \<Rightarrow> nat \<Rightarrow> nat \<Rightarrow> nat \<Rightarrow> samples" where
  "lists_149 st elapsed rate tcp udp icmp =
     (time_values st @ [round1 elapsed], bw_values st @ [rate], tcp_values st @ [tcp],
      udp_values st @ [udp], icmp_values st @ [icmp])"

text \<open>
  The five lists as a session leaves them: empty when it does not enter the loop, the
  lists of the last state of the loop otherwise.
\<close>

definition accumulated ::
  "host \<Rightarrow> string \<Rightarrow> real \<Rightarrow> real \<Rightarrow> bool \<Rightarrow> io_counters \<Rightarrow> samples" where
  "accumulated h interface duration interval force_monitor stats =
     (if interval \<le> 0 then ([], [], [], [], [])
      else
        case map_of stats interface of
          None \<Rightarrow> ([], [], [], [], [])
        | Some initial_stats \<Rightarrow>
            returned (state_of (monitor_loop interface duration interval force_monitor
              (h_time_107 h) (h_ticks h) (initial_state initial_stats))))"

text \<open>
  The specification of \<^verbatim>\<open>selectActiveInterface\<close>, in its own words: the first
  interface, in the order the host reports them and the loopback interface apart, whose
  sent or received byte count is not zero; none when there is no such interface.
\<close>

definition select_active_interface_spec :: "io_counters \<Rightarrow> string option" where
  "select_active_interface_spec counters =
     map_option fst
       (find (\<lambda>(name, s). name \<noteq> ''lo'' \<and> (bytes_sent s \<noteq> 0 \<or> bytes_recv s \<noteq> 0))
          counters)"

section \<open>The loop, step by step\<close>

lemmas run_defs = host_of_def tick_of_def counters_of_def nic_def loop_body_def alert_to_def
  send_alert_def total_bw_def sent_bw_def recv_bw_def icmp_count_def round1_def returned_def
  initial_state_def get_available_interfaces_def monitor_network_traffic_def

text \<open>Iterations that ran to their end can be split off the front of the loop.\<close>

lemma monitor_loop_append:
  "monitor_loop i d iv f s0 pre st = Next st' \<Longrightarrow>
     monitor_loop i d iv f s0 (pre @ rest) st = monitor_loop i d iv f s0 rest st'"
  by (induction pre arbitrary: st) (auto split: step.splits)

text \<open>
  An iteration that ran to its end sent no alert, put one entry on every list, and kept
  the counters it read.
\<close>

lemma loop_body_Next:
  assumes "loop_body i d iv f s0 t st = Next st'"
  shows "alerts st' = alerts st"
    and "length (time_values st') = Suc (length (time_values st))"
    and "length (bw_values st') = Suc (length (bw_values st))"
    and "length (tcp_values st') = Suc (length (tcp_values st))"
    and "length (udp_values st') = Suc (length (udp_values st))"
    and "length (icmp_values st') = Suc (length (icmp_values st))"
    and "\<exists>cur. reading i t = Some cur \<and> initial_bytes_sent st' = bytes_sent cur
           \<and> initial_bytes_recv st' = bytes_recv cur"
  using assms
  by (auto simp add: loop_body_def Let_def get_available_interfaces_def reading_def
      split: if_splits sum.splits option.splits)

lemma monitor_loop_Next:
  "monitor_loop i d iv f s0 pre st = Next st' \<Longrightarrow>
     alerts st' = alerts st
     \<and> length (time_values st') = length (time_values st) + length pre
     \<and> length (bw_values st') = length (bw_values st) + length pre
     \<and> length (tcp_values st') = length (tcp_values st) + length pre
     \<and> length (udp_values st') = length (udp_values st) + length pre
     \<and> length (icmp_values st') = length (icmp_values st) + length pre"
proof (induction pre arbitrary: st)
  case Nil
  then show ?case by simp
next
  case (Cons t pre)
  from Cons.prems obtain st1 where b: "loop_body i d iv f s0 t st = Next st1"
    and r: "monitor_loop i d iv f s0 pre st1 = Next st'"
    by (auto split: step.splits)
  from Cons.IH [OF r] loop_body_Next(1-6) [OF b] show ?case by simp
qed

lemma monitor_loop_previous:
  "monitor_loop i d iv f s0 pre st = Next st' \<Longrightarrow> pre \<noteq> [] \<Longrightarrow>
     \<exists>cur. reading i (last pre) = Some cur \<and> initial_bytes_sent st' = bytes_sent cur
       \<and> initial_bytes_recv st' = bytes_recv cur"
proof (induction pre arbitrary: st)
  case Nil
  then show ?case by simp
next
  case (Cons t pre)
  from Cons.prems(1) obtain st1 where b: "loop_body i d iv f s0 t st = Next st1"
    and r: "monitor_loop i d iv f s0 pre st1 = Next st'"
    by (auto split: step.splits)
  show ?case
  proof (cases "pre = []")
    case True
    with r have "st' = st1" by simp
    with loop_body_Next(7) [OF b] True show ?thesis by simp
  next
    case False
    with Cons.IH [OF r] show ?thesis by simp
  qed
qed

text \<open>However an iteration ends, it only appends to the lists; so does the loop.\<close>

lemma loop_body_grows:
  "prefix (time_values st) (time_values (state_of (loop_body i d iv f s0 t st)))
   \<and> prefix (bw_values st) (bw_values (state_of (loop_body i d iv f s0 t st)))
   \<and> prefix (tcp_values st) (tcp_values (state_of (loop_body i d iv f s0 t st)))
   \<and> prefix (udp_values st) (udp_values (state_of (loop_body i d iv f s0 t st)))
   \<and> prefix (icmp_values st) (icmp_values (state_of (loop_body i d iv f s0 t st)))"
  by (auto simp add: loop_body_def Let_def alert_to_def get_available_interfaces_def
      split: sum.splits option.splits)

lemma monitor_loop_grows:
  "prefix (bw_values st) (bw_values (state_of (monitor_loop i d iv f s0 ticks st)))"
proof (induction ticks arbitrary: st)
  case Nil
  then show ?case by simp
next
  case (Cons t ticks)
  have g: "prefix (bw_values st) (bw_values (state_of (loop_body i d iv f s0 t st)))"
    using loop_body_grows [of st i d iv f s0 t] by simp
  show ?case
  proof (cases "loop_body i d iv f s0 t st")
    case (Next st1)
    with g Cons.IH [of st1] show ?thesis by (auto intro: prefix_order.trans)
  next
    case (Finished st1)
    with g show ?thesis by simp
  next
    case (Broke l st1)
    with g show ?thesis by simp
  next
    case (Raised e l st1)
    with g show ?thesis by simp
  qed
qed

lemma monitor_loop_Cons_grows:
  "prefix (bw_values (state_of (loop_body i d iv f s0 t st)))
     (bw_values (state_of (monitor_loop i d iv f s0 (t # rest) st)))"
  using monitor_loop_grows [of _ i d iv f s0 rest]
  by (cases "loop_body i d iv f s0 t st") simp_all



text \<open>Both handlers return the lists as they are.\<close>

lemma handlers_returns: "fst (handlers s) = Inr (returned (state_of s))"
  by (cases s rule: handlers.cases) simp_all

text \<open>The loop ends once the clock has reached the duration.\<close>

lemma monitor_loop_ends:
  "\<exists>t\<in>set ticks. d \<le> tk_time t - s0 \<Longrightarrow> monitor_loop i d iv f s0 ticks st \<noteq> Next st'"
proof (induction ticks arbitrary: st)
  case Nil
  then show ?case by simp
next
  case (Cons t ticks)
  show ?case
  proof (cases "d \<le> tk_time t - s0")
    case True
    then show ?thesis by (simp add: loop_body_def)
  next
    case False
    with Cons.prems have "\<exists>t\<in>set ticks. d \<le> tk_time t - s0" by simp
    from Cons.IH [OF this] show ?thesis by (auto split: step.splits)
  qed
qed

section \<open>Rejected configurations\<close>

text \<open>
  Claim C4. A call of \<^verbatim>\<open>monitor_network_traffic\<close> with an interval that is zero or
  negative is refused before anything is sampled: whatever the host would answer, the
  function sends the alert of line 93 and returns five empty lists.
\<close>

theorem nonpositive_interval_rejected:
  "interval \<le> 0 \<Longrightarrow>
     monitor_network_traffic h interface duration interval force_monitor
       = Some (Inr ([], [], [], [], []), [Alert_interval_not_positive])"
  by (simp add: monitor_network_traffic_def send_alert_def)

theorem nonpositive_interval_rejected_witness:
  "monitor_network_traffic (host_of [tick_of 100 True 131072 0]) ''eth0'' 3 0 False
     = Some (Inr ([], [], [], [], []), [Alert_interval_not_positive])"
  using nonpositive_interval_rejected [of 0 "host_of [tick_of 100 True 131072 0]" "''eth0''" 3 False]
  by simp

text \<open>
  Claim C5, as the code has it. The claim says that a call with an interface the host
  does not report always returns zero samples. After the alert of line 98, line 99 asks
  the host for the list of interfaces, outside any \<^verbatim>\<open>try\<close>: when that query raises,
  the function returns nothing and the exception reaches the caller.
\<close>

theorem diagnostic_query_exception_propagates:
  "monitor_network_traffic
     ((host_of [tick_of 100 True 131072 0])
        \<lparr>h_io_counters_99 := Inl (Exception ''OSError'')\<rparr>)
     ''wlan0'' 3 1 False
   = Some (Inl (Exception ''OSError''), [Alert_interface_not_found ''wlan0''])"
  by (simp add: run_defs)

text \<open>
  Claim C5, amended: when the counter table that the host reports at line 96 has no entry
  for the interface, the function sends the alert of line 98 before any iteration of the
  loop, whatever the host would have answered there; it then returns five empty lists
  when the query of line 99 answers, and lets the exception of that query reach the
  caller when it raises.
\<close>

theorem unknown_interface_rejected:
  assumes "0 < interval"
    and "h_io_counters_96 h = Inr stats"
    and "interface \<notin> fst ` set stats"
  shows "monitor_network_traffic h interface duration interval force_monitor
           = Some (case h_io_counters_99 h of
                     Inl e \<Rightarrow> Inl e
                   | Inr available \<Rightarrow> Inr ([], [], [], [], []),
                   [Alert_interface_not_found interface])"
proof -
  from assms(3) have "map_of stats interface = None"
    by (simp add: map_of_eq_None_iff)
  with assms(1,2) show ?thesis
    by (simp add: monitor_network_traffic_def send_alert_def get_available_interfaces_def Let_def
        split: sum.splits)
qed

theorem unknown_interface_rejected_witness:
  "monitor_network_traffic (host_of [tick_of 100 True 131072 0]) ''wlan0'' 3 1 False
     = Some (Inr ([], [], [], [], []), [Alert_interface_not_found ''wlan0''])"
proof -
  let ?h = "host_of [tick_of 100 True 131072 0]"
  have h1: "(0::real) < 1" by simp
  have h2: "h_io_counters_96 ?h = Inr (counters_of 0 0)" by (simp add: host_of_def)
  have h3: "''wlan0'' \<notin> fst ` set (counters_of 0 0)" by (simp add: counters_of_def)
  from unknown_interface_rejected [OF h1 h2 h3, of 3 False] show ?thesis
    by (simp add: host_of_def)
qed

section \<open>Sessions without samples\<close>

text \<open>
  Claim C6. With a duration of zero, a positive interval and an interface the host knows,
  the loop condition of line 111 is false at its first evaluation (the clock has not gone
  back since line 107): the body never runs, and the function returns five empty lists
  and sends no alert.
\<close>

theorem zero_duration_no_samples:
  assumes "0 < interval"
    and "h_io_counters_96 h = Inr stats"
    and "map_of stats interface = Some initial_stats"
    and "h_ticks h = t # ts"
    and "h_time_107 h \<le> tk_time t"
  shows "monitor_network_traffic h interface 0 interval force_monitor
           = Some (Inr ([], [], [], [], []), [])"
  using assms
  by (simp add: monitor_network_traffic_def loop_body_def initial_state_def returned_def)

theorem zero_duration_no_samples_witness:
  "monitor_network_traffic (host_of [tick_of 100 True 131072 0]) ''eth0'' 0 1 False
     = Some (Inr ([], [], [], [], []), [])"
proof -
  let ?h = "host_of [tick_of 100 True 131072 0]"
  have h1: "(0::real) < 1" by simp
  have h2: "h_io_counters_96 ?h = Inr (counters_of 0 0)" by (simp add: host_of_def)
  have h3: "map_of (counters_of 0 0) ''eth0'' = Some \<lparr>bytes_sent = 0, bytes_recv = 0\<rparr>"
    by (simp add: counters_of_def)
  have h4: "h_ticks ?h = tick_of 100 True 131072 0 # []" by (simp add: host_of_def)
  have h5: "h_time_107 ?h \<le> tk_time (tick_of 100 True 131072 0)"
    by (simp add: host_of_def tick_of_def)
  from zero_duration_no_samples [OF h1 h2 h3 h4 h5] show ?thesis .
qed

section \<open>The rate of one iteration\<close>

text \<open>
  Claim C1. Take a session with a positive interval in which the iterations \<open>pre\<close>
  ran to their end and the next iteration reads the counters of the interface and reaches
  line 137. Let \<open>previous_stats\<close> be the reading before it (the one of line 103 when
  it is the first iteration, the one of the iteration before it otherwise) and
  \<open>current_stats\<close> its own. If the sent-byte count has not gone down, then in the
  tuple that the function returns the entry of this iteration in the bandwidth list is the
  sum of the sent rate and the received rate, where the sent rate is
  \<open>(bytesSent2 - bytesSent1) * 8 / (interval * 1048576)\<close> and is not negative, and
  the received rate is the same quotient of the received-byte counts (not negative when
  that count has not gone down).
\<close>

theorem session_rate_formula:
  assumes "0 < interval"
    and "h_io_counters_96 h = Inr stats"
    and "map_of stats interface = Some initial_stats"
    and "h_ticks h = pre @ t # rest"
    and "monitor_loop interface duration interval force_monitor (h_time_107 h) pre
           (initial_state initial_stats) = Next st"
    and "tk_time t - h_time_107 h < duration"
    and "tk_if_stats_113 t = Inr nics"
    and "map_of nics interface = Some interface_stats"
    and "isup interface_stats \<or> force_monitor"
    and "tk_io_counters_124 t = Inr counters"
    and "map_of counters interface = Some current_stats"
    and "tk_debug_134 t = Inr ()"
    and "previous_reading interface initial_stats pre = Some previous_stats"
    and "bytes_sent previous_stats \<le> bytes_sent current_stats"
    and "monitor_network_traffic h interface duration interval force_monitor
           = Some (Inr (tv, bw, tcp, udp, icmp), alog)"
  shows "length pre < length bw
       \<and> bw ! length pre
           = sent_bw (bytes_sent current_stats) (bytes_sent previous_stats) interval
             + recv_bw (bytes_recv current_stats) (bytes_recv previous_stats) interval
       \<and> sent_bw (bytes_sent current_stats) (bytes_sent previous_stats) interval
           = real_of_int (bytes_sent current_stats - bytes_sent previous_stats) * 8
               / (interval * 1048576)
       \<and> 0 \<le> sent_bw (bytes_sent current_stats) (bytes_sent previous_stats) interval
       \<and> recv_bw (bytes_recv current_stats) (bytes_recv previous_stats) interval
           = real_of_int (bytes_recv current_stats - bytes_recv previous_stats) * 8
               / (interval * 1048576)
       \<and> (bytes_recv previous_stats \<le> bytes_recv current_stats \<longrightarrow>
            0 \<le> recv_bw (bytes_recv current_stats) (bytes_recv previous_stats) interval)"
proof -
  let ?loop = "monitor_loop interface duration interval force_monitor (h_time_107 h)"
  let ?body = "loop_body interface duration interval force_monitor (h_time_107 h) t st"
  let ?rate = "sent_bw (bytes_sent current_stats) (bytes_sent previous_stats) interval
             + recv_bw (bytes_recv current_stats) (bytes_recv previous_stats) interval"
  have prev: "initial_bytes_sent st = bytes_sent previous_stats
      \<and> initial_bytes_recv st = bytes_recv previous_stats"
  proof (cases "pre = []")
    case True
    with assms(5,13) show ?thesis by (auto simp add: previous_reading_def initial_state_def)
  next
    case False
    with monitor_loop_previous [OF assms(5)] assms(13) show ?thesis
      by (auto simp add: previous_reading_def)
  qed
  from monitor_loop_Next [OF assms(5)] have n: "length (bw_values st) = length pre"
    by (simp add: initial_state_def)
  have b: "bw_values (state_of ?body) = bw_values st @ [?rate]"
    using assms(6-12) prev
    by (auto simp add: loop_body_def Let_def total_bw_def split: sum.splits)
  have split: "?loop (h_ticks h) (initial_state initial_stats) = ?loop (t # rest) st"
    unfolding assms(4) by (rule monitor_loop_append [OF assms(5)])
  define fin where "fin = ?loop (h_ticks h) (initial_state initial_stats)"
  have "handlers fin = (Inr (tv, bw, tcp, udp, icmp), alog)"
    using assms(1-3,15) unfolding fin_def monitor_network_traffic_def
    by (cases "?loop (h_ticks h) (initial_state initial_stats)") auto
  then have "fst (handlers fin) = Inr (tv, bw, tcp, udp, icmp)" by simp
  with handlers_returns [of fin] have "returned (state_of fin) = (tv, bw, tcp, udp, icmp)"
    by simp
  then have "bw = bw_values (state_of (?loop (t # rest) st))"
    unfolding fin_def split by (simp add: returned_def)
  with monitor_loop_Cons_grows [of interface duration interval force_monitor "h_time_107 h" t st rest]
    b have "prefix (bw_values st @ [?rate]) bw" by simp
  then obtain zs where bw: "bw = (bw_values st @ [?rate]) @ zs"
    by (auto simp add: prefix_def)
  from bw n have e: "length pre < length bw \<and> bw ! length pre = ?rate"
    by (simp add: nth_append)
  have f: "sent_bw (bytes_sent current_stats) (bytes_sent previous_stats) interval
           = real_of_int (bytes_sent current_stats - bytes_sent previous_stats) * 8
               / (interval * 1048576)"
    by (simp add: sent_bw_def)
  have g: "recv_bw (bytes_recv current_stats) (bytes_recv previous_stats) interval
           = real_of_int (bytes_recv current_stats - bytes_recv previous_stats) * 8
               / (interval * 1048576)"
    by (simp add: recv_bw_def)
  have f0: "0 \<le> sent_bw (bytes_sent current_stats) (bytes_sent previous_stats) interval"
    unfolding f using assms(1,14) by simp
  have g0: "bytes_recv previous_stats \<le> bytes_recv current_stats \<longrightarrow>
      0 \<le> recv_bw (bytes_recv current_stats) (bytes_recv previous_stats) interval"
    unfolding g using assms(1) by simp
  from e f f0 g g0 show ?thesis by blast
qed

theorem session_rate_formula_witness:
  "monitor_network_traffic
     (host_of [tick_of 100 True 131072 0, tick_of 101 True 262144 0, tick_of 102 True 393216 0,
               tick_of 103 True 393216 0])
     ''eth0'' 3 1 False
   = Some (Inr ([0, 1, 2], [1, 1, 1], [3, 3, 3], [2, 2, 2], [0, 0, 0]), [])
   \<and> [1, 1, 1 :: real] ! 1 = sent_bw 262144 131072 1 + recv_bw 0 0 1
   \<and> sent_bw 262144 131072 1 = 1"
proof -
  let ?t = "tick_of 101 True 262144 0"
  let ?h = "host_of [tick_of 100 True 131072 0, ?t, tick_of 102 True 393216 0,
               tick_of 103 True 393216 0]"
  let ?st = "\<lparr>time_values = [0], bw_values = [1], tcp_values = [3], udp_values = [2],
    icmp_values = [0], initial_bytes_sent = 131072, initial_bytes_recv = 0, alerts = []\<rparr>"
  let ?prev = "\<lparr>bytes_sent = 131072, bytes_recv = (0::int)\<rparr>"
  let ?cur = "\<lparr>bytes_sent = 262144, bytes_recv = (0::int)\<rparr>"
  have h1: "(0::real) < 1" by simp
  have h2: "h_io_counters_96 ?h = Inr (counters_of 0 0)" by (simp add: host_of_def)
  have h3: "map_of (counters_of 0 0) ''eth0'' = Some \<lparr>bytes_sent = 0, bytes_recv = 0\<rparr>"
    by (simp add: counters_of_def)
  have h4: "h_ticks ?h = [tick_of 100 True 131072 0] @ ?t #
      [tick_of 102 True 393216 0, tick_of 103 True 393216 0]"
    by (simp add: host_of_def)
  have h5: "monitor_loop ''eth0'' 3 1 False (h_time_107 ?h) [tick_of 100 True 131072 0]
      (initial_state \<lparr>bytes_sent = 0, bytes_recv = 0\<rparr>) = Next ?st"
    by (simp add: run_defs)
  have h6: "tk_time ?t - h_time_107 ?h < 3" by (simp add: host_of_def tick_of_def)
  have h7: "tk_if_stats_113 ?t = Inr [(''lo'', nic True), (''eth0'', nic True)]"
    by (simp add: tick_of_def)
  have h8: "map_of [(''lo'', nic True), (''eth0'', nic True)] ''eth0'' = Some (nic True)"
    by simp
  have h9: "isup (nic True) \<or> False" by (simp add: nic_def)
  have h10: "tk_io_counters_124 ?t = Inr (counters_of 262144 0)" by (simp add: tick_of_def)
  have h11: "map_of (counters_of 262144 0) ''eth0'' = Some ?cur" by (simp add: counters_of_def)
  have h12: "tk_debug_134 ?t = Inr ()" by (simp add: tick_of_def)
  have h13: "previous_reading ''eth0'' \<lparr>bytes_sent = 0, bytes_recv = 0\<rparr>
      [tick_of 100 True 131072 0] = Some ?prev"
    by (simp add: previous_reading_def reading_def tick_of_def counters_of_def)
  have h14: "bytes_sent ?prev \<le> bytes_sent ?cur" by simp
  have h15: "monitor_network_traffic ?h ''eth0'' 3 1 False
      = Some (Inr ([0, 1, 2], [1, 1, 1], [3, 3, 3], [2, 2, 2], [0, 0, 0]), [])"
    by (simp add: run_defs)
  from session_rate_formula [OF h1 h2 h3 h4 h5 h6 h7 h8 h9 h10 h11 h12 h13 h14 h15] h15
  show ?thesis by (simp add: sent_bw_def)
qed

text \<open>
  Claim C2, as the code has it. The claim says that a reading below the one before it
  (a counter that was reset or wrapped) gives the rate 0. The code has no such clamp:
  the rate of lines 137 to 140 is the same quotient as for a growing counter, and it is
  negative. In a session whose counter falls from 1048576 to 0, the second sample is -8.
\<close>

theorem counter_reset_gives_negative_rate:
  "monitor_network_traffic
     (host_of [tick_of 100 True 1048576 0, tick_of 101 True 0 0, tick_of 102 True 0 0])
     ''eth0'' 2 1 False
   = Some (Inr ([0, 1], [8, - 8], [3, 3], [2, 2], [0, 0]), [])"
  by (simp add: run_defs)

text \<open>
  Claim C2, amended: in an iteration that reaches line 137 (the call of line 134 has
  returned) with a positive interval and a sent-byte reading below the one before it, the
  sent rate is
  \<open>(bytesSent2 - bytesSent1) * 8 / (interval * 1048576)\<close>, a negative number, and
  it enters the appended total as it is.
\<close>

theorem negative_delta_not_clamped:
  assumes "0 < interval"
    and "tk_time t - start_time < duration"
    and "tk_if_stats_113 t = Inr nics"
    and "map_of nics interface = Some interface_stats"
    and "isup interface_stats \<or> force_monitor"
    and "tk_io_counters_124 t = Inr counters"
    and "map_of counters interface = Some current_stats"
    and "tk_debug_134 t = Inr ()"
    and "bytes_sent current_stats < initial_bytes_sent st"
  shows "sent_bw (bytes_sent current_stats) (initial_bytes_sent st) interval
           = real_of_int (bytes_sent current_stats - initial_bytes_sent st) * 8
               / (interval * 1048576)
       \<and> sent_bw (bytes_sent current_stats) (initial_bytes_sent st) interval < 0
       \<and> bw_values (state_of (loop_body interface duration interval force_monitor start_time t st))
           = bw_values st @ [sent_bw (bytes_sent current_stats) (initial_bytes_sent st) interval
                             + recv_bw (bytes_recv current_stats) (initial_bytes_recv st) interval]"
proof -
  have f: "sent_bw (bytes_sent current_stats) (initial_bytes_sent st) interval
           = real_of_int (bytes_sent current_stats - initial_bytes_sent st) * 8
               / (interval * 1048576)"
    by (simp add: sent_bw_def)
  have f0: "sent_bw (bytes_sent current_stats) (initial_bytes_sent st) interval < 0"
    unfolding f using assms(1,9) by (simp add: divide_neg_pos)
  have b: "bw_values (state_of (loop_body interface duration interval force_monitor start_time t st))
           = bw_values st @ [sent_bw (bytes_sent current_stats) (initial_bytes_sent st) interval
                             + recv_bw (bytes_recv current_stats) (initial_bytes_recv st) interval]"
    using assms(2-8) by (auto simp add: loop_body_def Let_def total_bw_def split: sum.splits)
  from f f0 b show ?thesis by blast
qed

theorem negative_delta_not_clamped_witness:
  "sent_bw 0 1048576 1 = - 8
   \<and> bw_values (state_of (loop_body ''eth0'' 3 1 False 100 (tick_of 101 True 0 0)
        (initial_state \<lparr>bytes_sent = 1048576, bytes_recv = 0\<rparr>))) = [- 8]"
proof -
  let ?t = "tick_of 101 True 0 0"
  let ?st = "initial_state \<lparr>bytes_sent = 1048576, bytes_recv = 0\<rparr>"
  let ?cur = "\<lparr>bytes_sent = 0, bytes_recv = 0\<rparr>"
  have h1: "(0::real) < 1" by simp
  have h2: "tk_time ?t - 100 < 3" by (simp add: tick_of_def)
  have h3: "tk_if_stats_113 ?t = Inr [(''lo'', nic True), (''eth0'', nic True)]"
    by (simp add: tick_of_def)
  have h4: "map_of [(''lo'', nic True), (''eth0'', nic True)] ''eth0'' = Some (nic True)"
    by simp
  have h5: "isup (nic True) \<or> False" by (simp add: nic_def)
  have h6: "tk_io_counters_124 ?t = Inr (counters_of 0 0)" by (simp add: tick_of_def)
  have h7: "map_of (counters_of 0 0) ''eth0'' = Some ?cur" by (simp add: counters_of_def)
  have h8: "tk_debug_134 ?t = Inr ()" by (simp add: tick_of_def)
  have h9: "bytes_sent ?cur < initial_bytes_sent ?st" by (simp add: initial_state_def)
  from negative_delta_not_clamped [OF h1 h2 h3 h4 h5 h6 h7 h8 h9] show ?thesis
    by (simp add: initial_state_def sent_bw_def recv_bw_def)
qed

section \<open>Sessions that end early\<close>

text \<open>
  Claim C3. In a session that is not forced, let the iterations \<open>pre\<close> run to their
  end, and let the host report in the next iteration that the link of the interface is
  down. Then the loop ends there, whatever the host would answer afterwards: the function
  returns, without an exception, the lists as they were after \<open>pre\<close> (one sample
  for each of those iterations), and sends the alert of line 119.
\<close>

theorem link_down_stops_session:
  assumes "0 < interval"
    and "h_io_counters_96 h = Inr stats"
    and "map_of stats interface = Some initial_stats"
    and "h_ticks h = pre @ t # rest"
    and "monitor_loop interface duration interval False (h_time_107 h) pre
           (initial_state initial_stats) = Next st"
    and "tk_time t - h_time_107 h < duration"
    and "tk_if_stats_113 t = Inr nics"
    and "map_of nics interface = Some interface_stats"
    and "\<not> isup interface_stats"
  shows "monitor_network_traffic h interface duration interval False
           = Some (Inr (returned st), [Alert_connection_interrupted interface])
         \<and> length (time_values st) = length pre \<and> length (bw_values st) = length pre"
proof -
  have b: "loop_body interface duration interval False (h_time_107 h) t st
             = Broke 120 (alert_to (Alert_connection_interrupted interface) st)"
    using assms(6-9) by (simp add: loop_body_def)
  have l: "monitor_loop interface duration interval False (h_time_107 h) (h_ticks h)
             (initial_state initial_stats)
           = Broke 120 (alert_to (Alert_connection_interrupted interface) st)"
    unfolding assms(4) monitor_loop_append [OF assms(5)] using b by simp
  from monitor_loop_Next [OF assms(5)]
  have n: "alerts st = []" "length (time_values st) = length pre"
    "length (bw_values st) = length pre"
    by (simp_all add: initial_state_def)
  have "monitor_network_traffic h interface duration interval False
           = Some (Inr (returned st), [Alert_connection_interrupted interface])"
    using assms(1-3) l n(1)
    by (simp add: monitor_network_traffic_def alert_to_def send_alert_def returned_def)
  with n show ?thesis by simp
qed

theorem link_down_stops_session_witness:
  "monitor_network_traffic
     (host_of [tick_of 100 True 131072 0, tick_of 101 False 262144 0, tick_of 102 True 393216 0])
     ''eth0'' 3 1 False
   = Some (Inr ([0], [1], [3], [2], [0]), [Alert_connection_interrupted ''eth0''])"
proof -
  let ?t = "tick_of 101 False 262144 0"
  let ?h = "host_of [tick_of 100 True 131072 0, ?t, tick_of 102 True 393216 0]"
  let ?st = "\<lparr>time_values = [0], bw_values = [1], tcp_values = [3], udp_values = [2],
    icmp_values = [0], initial_bytes_sent = 131072, initial_bytes_recv = 0, alerts = []\<rparr>"
  have h1: "(0::real) < 1" by simp
  have h2: "h_io_counters_96 ?h = Inr (counters_of 0 0)" by (simp add: host_of_def)
  have h3: "map_of (counters_of 0 0) ''eth0'' = Some \<lparr>bytes_sent = 0, bytes_recv = 0\<rparr>"
    by (simp add: counters_of_def)
  have h4: "h_ticks ?h = [tick_of 100 True 131072 0] @ ?t # [tick_of 102 True 393216 0]"
    by (simp add: host_of_def)
  have h5: "monitor_loop ''eth0'' 3 1 False (h_time_107 ?h) [tick_of 100 True 131072 0]
      (initial_state \<lparr>bytes_sent = 0, bytes_recv = 0\<rparr>) = Next ?st"
    by (simp add: run_defs)
  have h6: "tk_time ?t - h_time_107 ?h < 3" by (simp add: host_of_def tick_of_def)
  have h7: "tk_if_stats_113 ?t = Inr [(''lo'', nic True), (''eth0'', nic False)]"
    by (simp add: tick_of_def)
  have h8: "map_of [(''lo'', nic True), (''eth0'', nic False)] ''eth0'' = Some (nic False)"
    by simp
  have h9: "\<not> isup (nic False)" by (simp add: nic_def)
  from link_down_stops_session [OF h1 h2 h3 h4 h5 h6 h7 h8 h9] show ?thesis
    by (simp add: returned_def)
qed

text \<open>
  Claim C8. Let the iterations \<open>pre\<close> run to their end, leaving one entry on every
  list for each of them, and let the next iteration begin. When a call that this
  iteration reaches, the calls before it having returned, is interrupted by a
  \<^verbatim>\<open>KeyboardInterrupt\<close>, whichever call it is (psutil at lines 113, 116, 124, 127,
  143, 144 and 145, \<^verbatim>\<open>logging.debug\<close> at lines 134, 155 and 156, the sleep of line
  158), the session ends there: the function returns, whatever the host would answer
  afterwards, all that the lists hold at the interrupted call, and sends the alert of
  line 160.
\<close>

theorem interrupt_returns_samples:
  assumes "0 < interval"
    and "h_io_counters_96 h = Inr stats"
    and "map_of stats interface = Some initial_stats"
    and "h_ticks h = pre @ t # rest"
    and "monitor_loop interface duration interval force_monitor (h_time_107 h) pre
           (initial_state initial_stats) = Next st"
    and "tk_time t - h_time_107 h < duration"
  shows
    "length (time_values st) = length pre \<and> length (bw_values st) = length pre
     \<and> length (tcp_values st) = length pre \<and> length (udp_values st) = length pre
     \<and> length (icmp_values st) = length pre
     \<and> (tk_if_stats_113 t = Inl KeyboardInterrupt \<longrightarrow>
        monitor_network_traffic h interface duration interval force_monitor
         = Some (Inr (returned st), [Alert_interrupted_by_user]))
     \<and> (\<forall>nics. tk_if_stats_113 t = Inr nics \<longrightarrow>
         (map_of nics interface = None \<longrightarrow> tk_io_counters_116 t = Inl KeyboardInterrupt \<longrightarrow>
            monitor_network_traffic h interface duration interval force_monitor
             = Some (Inr (returned st),
                   [Alert_status_unavailable interface, Alert_interrupted_by_user]))
       \<and> (\<forall>interface_stats. map_of nics interface = Some interface_stats \<longrightarrow>
            (isup interface_stats \<or> force_monitor) \<longrightarrow>
           (tk_io_counters_124 t = Inl KeyboardInterrupt \<longrightarrow>
              monitor_network_traffic h interface duration interval force_monitor
               = Some (Inr (lists_122 st (tk_time t - h_time_107 h)),
                     [Alert_interrupted_by_user]))
         \<and> (\<forall>counters. tk_io_counters_124 t = Inr counters \<longrightarrow>
             (map_of counters interface = None \<longrightarrow> tk_io_counters_127 t = Inl KeyboardInterrupt \<longrightarrow>
                monitor_network_traffic h interface duration interval force_monitor
                 = Some (Inr (lists_122 st (tk_time t - h_time_107 h)),
                       [Alert_not_found_during_run interface, Alert_interrupted_by_user]))
           \<and> (\<forall>current_stats. map_of counters interface = Some current_stats \<longrightarrow>
               (tk_debug_134 t = Inl KeyboardInterrupt \<longrightarrow>
                  monitor_network_traffic h interface duration interval force_monitor
                   = Some (Inr (lists_122 st (tk_time t - h_time_107 h)),
                         [Alert_interrupted_by_user]))
             \<and> (tk_debug_134 t = Inr () \<longrightarrow>
                 (tk_tcp_143 t = Inl KeyboardInterrupt \<longrightarrow>
                    monitor_network_traffic h interface duration interval force_monitor
                     = Some (Inr (lists_140 st (tk_time t - h_time_107 h)
                           (total_bw current_stats st interval)),
                           [Alert_interrupted_by_user]))
               \<and> (\<forall>tcp_stats. tk_tcp_143 t = Inr tcp_stats \<longrightarrow>
                   (tk_udp_144 t = Inl KeyboardInterrupt \<longrightarrow>
                      monitor_network_traffic h interface duration interval force_monitor
                       = Some (Inr (lists_140 st (tk_time t - h_time_107 h)
                             (total_bw current_stats st interval)),
                             [Alert_interrupted_by_user]))
                 \<and> (\<forall>udp_stats. tk_udp_144 t = Inr udp_stats \<longrightarrow>
                     (tk_if_stats_145 t = Inl KeyboardInterrupt \<longrightarrow>
                        monitor_network_traffic h interface duration interval force_monitor
                         = Some (Inr (lists_140 st (tk_time t - h_time_107 h)
                               (total_bw current_stats st interval)),
                               [Alert_interrupted_by_user]))
                   \<and> (\<forall>icmp_stats. tk_if_stats_145 t = Inr icmp_stats \<longrightarrow>
                       (tk_debug_155 t = Inl KeyboardInterrupt \<longrightarrow>
                          monitor_network_traffic h interface duration interval force_monitor
                           = Some (Inr (lists_149 st (tk_time t - h_time_107 h)
                                 (total_bw current_stats st interval)
                               tcp_stats udp_stats (icmp_count icmp_stats)),
                                     [Alert_interrupted_by_user]))
                     \<and> (tk_debug_155 t = Inr () \<longrightarrow>
                         (tk_debug_156 t = Inl KeyboardInterrupt \<longrightarrow>
                            monitor_network_traffic h interface duration interval force_monitor
                             = Some (Inr (lists_149 st (tk_time t - h_time_107 h)
                                   (total_bw current_stats st interval)
                                 tcp_stats udp_stats (icmp_count icmp_stats)),
                                       [Alert_interrupted_by_user]))
                       \<and> (tk_debug_156 t = Inr () \<longrightarrow> tk_sleep_158 t = Inl KeyboardInterrupt \<longrightarrow>
                            monitor_network_traffic h interface duration interval force_monitor
                             = Some (Inr (lists_149 st (tk_time t - h_time_107 h)
                                   (total_bw current_stats st interval)
                                 tcp_stats udp_stats (icmp_count icmp_stats)),
                                       [Alert_interrupted_by_user])))))))))))"
proof -
  from monitor_loop_Next [OF assms(5)]
  have n: "alerts st = [] \<and> length (time_values st) = length pre
     \<and> length (bw_values st) = length pre
     \<and> length (tcp_values st) = length pre \<and> length (udp_values st) = length pre
     \<and> length (icmp_values st) = length pre"
    by (simp add: initial_state_def)
  have r: "monitor_network_traffic h interface duration interval force_monitor
      = (case monitor_loop interface duration interval force_monitor (h_time_107 h)
               (t # rest) st of
           Next st \<Rightarrow> None
         | Finished st \<Rightarrow> Some (handlers (Finished st))
         | Broke l st \<Rightarrow> Some (handlers (Broke l st))
         | Raised e l st \<Rightarrow> Some (handlers (Raised e l st)))"
    using assms(1-4) monitor_loop_append [OF assms(5)]
    by (simp add: monitor_network_traffic_def)
  show ?thesis
    unfolding r using assms(6) n
    by (auto simp add: loop_body_def Let_def alert_to_def send_alert_def
        get_available_interfaces_def returned_def lists_122_def lists_140_def lists_149_def
        total_bw_def)
qed

theorem interrupt_returns_samples_witness:
  "monitor_network_traffic
     (host_of [tick_of 100 True 131072 0,
               (tick_of 101 True 262144 0)\<lparr>tk_sleep_158 := Inl KeyboardInterrupt\<rparr>])
     ''eth0'' 3 1 False
   = Some (Inr ([0, 1], [1, 1], [3, 3], [2, 2], [0, 0]), [Alert_interrupted_by_user])
   \<and> monitor_network_traffic
     (host_of [tick_of 100 True 131072 0,
               (tick_of 101 True 262144 0)\<lparr>tk_tcp_143 := Inl KeyboardInterrupt\<rparr>,
               tick_of 102 True 393216 0])
     ''eth0'' 3 1 False
   = Some (Inr ([0, 1], [1, 1], [3], [2], [0]), [Alert_interrupted_by_user])"
proof -
  let ?a = "(tick_of 101 True 262144 0)\<lparr>tk_sleep_158 := Inl KeyboardInterrupt\<rparr>"
  let ?b = "(tick_of 101 True 262144 0)\<lparr>tk_tcp_143 := Inl KeyboardInterrupt\<rparr>"
  let ?ha = "host_of [tick_of 100 True 131072 0, ?a]"
  let ?hb = "host_of [tick_of 100 True 131072 0, ?b, tick_of 102 True 393216 0]"
  let ?st = "\<lparr>time_values = [0], bw_values = [1], tcp_values = [3], udp_values = [2],
    icmp_values = [0], initial_bytes_sent = 131072, initial_bytes_recv = 0, alerts = []\<rparr>"
  have h1: "(0::real) < 1" by simp
  have h3: "map_of (counters_of 0 0) ''eth0'' = Some \<lparr>bytes_sent = 0, bytes_recv = 0\<rparr>"
    by (simp add: counters_of_def)
  have a2: "h_io_counters_96 ?ha = Inr (counters_of 0 0)" by (simp add: host_of_def)
  have a4: "h_ticks ?ha = [tick_of 100 True 131072 0] @ ?a # []"
    by (simp add: host_of_def)
  have a5: "monitor_loop ''eth0'' 3 1 False (h_time_107 ?ha) [tick_of 100 True 131072 0]
      (initial_state \<lparr>bytes_sent = 0, bytes_recv = 0\<rparr>) = Next ?st"
    by (simp add: run_defs)
  have a6: "tk_time ?a - h_time_107 ?ha < 3" by (simp add: host_of_def tick_of_def)
  have b2: "h_io_counters_96 ?hb = Inr (counters_of 0 0)" by (simp add: host_of_def)
  have b4: "h_ticks ?hb = [tick_of 100 True 131072 0] @ ?b # [tick_of 102 True 393216 0]"
    by (simp add: host_of_def)
  have b5: "monitor_loop ''eth0'' 3 1 False (h_time_107 ?hb) [tick_of 100 True 131072 0]
      (initial_state \<lparr>bytes_sent = 0, bytes_recv = 0\<rparr>) = Next ?st"
    by (simp add: run_defs)
  have b6: "tk_time ?b - h_time_107 ?hb < 3" by (simp add: host_of_def tick_of_def)
  have a: "monitor_network_traffic ?ha ''eth0'' 3 1 False
      = Some (Inr ([0, 1], [1, 1], [3, 3], [2, 2], [0, 0]), [Alert_interrupted_by_user])"
    using interrupt_returns_samples [OF h1 a2 h3 a4 a5 a6]
    by (simp add: tick_of_def counters_of_def nic_def host_of_def lists_149_def total_bw_def
        sent_bw_def recv_bw_def icmp_count_def round1_def)
  have b: "monitor_network_traffic ?hb ''eth0'' 3 1 False
      = Some (Inr ([0, 1], [1, 1], [3], [2], [0]), [Alert_interrupted_by_user])"
    using interrupt_returns_samples [OF h1 b2 h3 b4 b5 b6]
    by (simp add: tick_of_def counters_of_def nic_def host_of_def lists_140_def total_bw_def
        sent_bw_def recv_bw_def icmp_count_def round1_def)
  from a b show ?thesis by simp
qed




section \<open>Exceptions\<close>

text \<open>
  Claim C10, as the code has it. The claim says that no answer of the host makes
  \<^verbatim>\<open>monitor_network_traffic\<close> raise. The query of line 96 is made before the
  \<^verbatim>\<open>try\<close> of line 110: when it raises, the exception reaches the caller.
\<close>

theorem start_query_exception_propagates:
  "monitor_network_traffic
     ((host_of [tick_of 100 True 131072 0, tick_of 103 True 131072 0])
        \<lparr>h_io_counters_96 := Inl (Exception ''OSError'')\<rparr>)
     ''eth0'' 3 1 False
   = Some (Inl (Exception ''OSError''), [])"
  by (simp add: run_defs)

text \<open>
  Claim C10, amended. Let the host answer the two queries made before the loop (lines 96
  and 99). Then, whatever it answers inside the loop, the function raises nothing: once
  the clock reaches the duration at some evaluation of the loop condition, it returns the
  tuple of the five lists as the session has left them. And when, after the iterations
  \<open>pre\<close> ran to their end, a call that the next iteration reaches raises an
  \<^verbatim>\<open>Exception\<close>, whichever call it is, the function returns all that the lists hold
  at that call, and sends the alert of line 162.
\<close>

theorem loop_exceptions_caught:
  assumes "h_io_counters_96 h = Inr stats"
    and "h_io_counters_99 h = Inr stats'"
  shows
    "((\<exists>t\<in>set (h_ticks h). duration \<le> tk_time t - h_time_107 h) \<longrightarrow>
        (\<exists>alog. monitor_network_traffic h interface duration interval force_monitor
           = Some (Inr (accumulated h interface duration interval force_monitor stats), alog)))
     \<and> (\<forall>initial_stats pre t rest st m.
         0 < interval \<longrightarrow> map_of stats interface = Some initial_stats \<longrightarrow>
         h_ticks h = pre @ t # rest \<longrightarrow>
         monitor_loop interface duration interval force_monitor (h_time_107 h) pre
           (initial_state initial_stats) = Next st \<longrightarrow>
         tk_time t - h_time_107 h < duration \<longrightarrow>
         (tk_if_stats_113 t = Inl (Exception m) \<longrightarrow>
            monitor_network_traffic h interface duration interval force_monitor
             = Some (Inr (returned st), [Alert_error (Exception m)]))
         \<and> (\<forall>nics. tk_if_stats_113 t = Inr nics \<longrightarrow>
             (map_of nics interface = None \<longrightarrow> tk_io_counters_116 t = Inl (Exception m) \<longrightarrow>
                monitor_network_traffic h interface duration interval force_monitor
                 = Some (Inr (returned st),
                       [Alert_status_unavailable interface, Alert_error (Exception m)]))
           \<and> (\<forall>interface_stats. map_of nics interface = Some interface_stats \<longrightarrow>
                (isup interface_stats \<or> force_monitor) \<longrightarrow>
               (tk_io_counters_124 t = Inl (Exception m) \<longrightarrow>
                  monitor_network_traffic h interface duration interval force_monitor
                   = Some (Inr (lists_122 st (tk_time t - h_time_107 h)),
                         [Alert_error (Exception m)]))
             \<and> (\<forall>counters. tk_io_counters_124 t = Inr counters \<longrightarrow>
                 (map_of counters interface = None \<longrightarrow> tk_io_counters_127 t = Inl (Exception m) \<longrightarrow>
                    monitor_network_traffic h interface duration interval force_monitor
                     = Some (Inr (lists_122 st (tk_time t - h_time_107 h)),
                           [Alert_not_found_during_run interface, Alert_error (Exception m)]))
               \<and> (\<forall>current_stats. map_of counters interface = Some current_stats \<longrightarrow>
                   (tk_debug_134 t = Inl (Exception m) \<longrightarrow>
                      monitor_network_traffic h interface duration interval force_monitor
                       = Some (Inr (lists_122 st (tk_time t - h_time_107 h)),
                             [Alert_error (Exception m)]))
                 \<and> (tk_debug_134 t = Inr () \<longrightarrow>
                     (tk_tcp_143 t = Inl (Exception m) \<longrightarrow>
                        monitor_network_traffic h interface duration interval force_monitor
                         = Some (Inr (lists_140 st (tk_time t - h_time_107 h)
                               (total_bw current_stats st interval)),
                               [Alert_error (Exception m)]))
                   \<and> (\<forall>tcp_stats. tk_tcp_143 t = Inr tcp_stats \<longrightarrow>
                       (tk_udp_144 t = Inl (Exception m) \<longrightarrow>
                          monitor_network_traffic h interface duration interval force_monitor
                           = Some (Inr (lists_140 st (tk_time t - h_time_107 h)
                                 (total_bw current_stats st interval)),
                                 [Alert_error (Exception m)]))
                     \<and> (\<forall>udp_stats. tk_udp_144 t = Inr udp_stats \<longrightarrow>
                         (tk_if_stats_145 t = Inl (Exception m) \<longrightarrow>
                            monitor_network_traffic h interface duration interval force_monitor
                             = Some (Inr (lists_140 st (tk_time t - h_time_107 h)
                                   (total_bw current_stats st interval)),
                                   [Alert_error (Exception m)]))
                       \<and> (\<forall>icmp_stats. tk_if_stats_145 t = Inr icmp_stats \<longrightarrow>
                           (tk_debug_155 t = Inl (Exception m) \<longrightarrow>
                              monitor_network_traffic h interface duration interval force_monitor
                               = Some (Inr (lists_149 st (tk_time t - h_time_107 h)
                                     (total_bw current_stats st interval)
                                   tcp_stats udp_stats (icmp_count icmp_stats)),
                                         [Alert_error (Exception m)]))
                         \<and> (tk_debug_155 t = Inr () \<longrightarrow>
                             (tk_debug_156 t = Inl (Exception m) \<longrightarrow>
                                monitor_network_traffic h interface duration interval force_monitor
                                 = Some (Inr (lists_149 st (tk_time t - h_time_107 h)
                                       (total_bw current_stats st interval)
                                     tcp_stats udp_stats (icmp_count icmp_stats)),
                                           [Alert_error (Exception m)]))
                           \<and> (tk_debug_156 t = Inr () \<longrightarrow> tk_sleep_158 t = Inl (Exception m) \<longrightarrow>
                                monitor_network_traffic h interface duration interval force_monitor
                                 = Some (Inr (lists_149 st (tk_time t - h_time_107 h)
                                       (total_bw current_stats st interval)
                                     tcp_stats udp_stats (icmp_count icmp_stats)),
                                           [Alert_error (Exception m)]))))))))))))"
    (is "_ \<and> ?calls")
proof (rule conjI)
  show "(\<exists>t\<in>set (h_ticks h). duration \<le> tk_time t - h_time_107 h) \<longrightarrow>
        (\<exists>alog. monitor_network_traffic h interface duration interval force_monitor
           = Some (Inr (accumulated h interface duration interval force_monitor stats), alog))"
  proof (rule impI)
    assume ends: "\<exists>t\<in>set (h_ticks h). duration \<le> tk_time t - h_time_107 h"
    show "\<exists>alog. monitor_network_traffic h interface duration interval force_monitor
           = Some (Inr (accumulated h interface duration interval force_monitor stats), alog)"
    proof (cases "interval \<le> 0")
      case True
      then show ?thesis by (simp add: monitor_network_traffic_def accumulated_def)
    next
      case False
      show ?thesis
      proof (cases "map_of stats interface")
        case None
        with False assms show ?thesis
          by (simp add: monitor_network_traffic_def accumulated_def get_available_interfaces_def
              Let_def)
      next
        case (Some initial_stats)
        define fin where "fin = monitor_loop interface duration interval force_monitor
          (h_time_107 h) (h_ticks h) (initial_state initial_stats)"
        from monitor_loop_ends [OF ends] have "\<forall>st. fin \<noteq> Next st"
          unfolding fin_def by simp
        then have "monitor_network_traffic h interface duration interval force_monitor
            = Some (handlers fin)"
          using False assms(1) Some unfolding fin_def monitor_network_traffic_def
          by (cases "monitor_loop interface duration interval force_monitor (h_time_107 h)
            (h_ticks h) (initial_state initial_stats)") auto
        moreover from handlers_returns [of fin] obtain alog where
          "handlers fin = (Inr (returned (state_of fin)), alog)"
          by (cases "handlers fin") simp
        moreover have "accumulated h interface duration interval force_monitor stats
            = returned (state_of fin)"
          using False Some by (simp add: accumulated_def fin_def)
        ultimately show ?thesis by simp
      qed
    qed
  qed
next
  show "?calls"
    apply (intro allI impI)
    subgoal premises p for initial_stats pre t rest st m
    proof -
      from monitor_loop_Next [OF p(4)] have a: "alerts st = []"
        by (simp add: initial_state_def)
      have r: "monitor_network_traffic h interface duration interval force_monitor
          = (case monitor_loop interface duration interval force_monitor (h_time_107 h)
                   (t # rest) st of
               Next st \<Rightarrow> None
             | Finished st \<Rightarrow> Some (handlers (Finished st))
             | Broke l st \<Rightarrow> Some (handlers (Broke l st))
             | Raised e l st \<Rightarrow> Some (handlers (Raised e l st)))"
        using p(1-3) assms(1) monitor_loop_append [OF p(4)]
        by (simp add: monitor_network_traffic_def)
      show ?thesis
        unfolding r using p(5) a
        by (auto simp add: loop_body_def Let_def alert_to_def send_alert_def
            get_available_interfaces_def returned_def lists_122_def lists_140_def
            lists_149_def total_bw_def)
    qed
    done
qed

theorem loop_exceptions_caught_witness:
  "monitor_network_traffic
     (host_of [tick_of 100 True 131072 0,
               (tick_of 101 True 262144 0)\<lparr>tk_udp_144 := Inl (Exception ''AccessDenied'')\<rparr>,
               tick_of 103 True 393216 0])
     ''eth0'' 3 1 False
   = Some (Inr ([0, 1], [1, 1], [3], [2], [0]), [Alert_error (Exception ''AccessDenied'')])
   \<and> accumulated
     (host_of [tick_of 100 True 131072 0,
               (tick_of 101 True 262144 0)\<lparr>tk_udp_144 := Inl (Exception ''AccessDenied'')\<rparr>,
               tick_of 103 True 393216 0])
     ''eth0'' 3 1 False (counters_of 0 0)
   = ([0, 1], [1, 1], [3], [2], [0])"
proof -
  let ?t = "(tick_of 101 True 262144 0)\<lparr>tk_udp_144 := Inl (Exception ''AccessDenied'')\<rparr>"
  let ?h = "host_of [tick_of 100 True 131072 0, ?t, tick_of 103 True 393216 0]"
  let ?s = "\<lparr>bytes_sent = 0, bytes_recv = (0::int)\<rparr>"
  let ?st = "\<lparr>time_values = [0], bw_values = [1], tcp_values = [3], udp_values = [2],
    icmp_values = [0], initial_bytes_sent = 131072, initial_bytes_recv = 0, alerts = []\<rparr>"
  have h1: "h_io_counters_96 ?h = Inr (counters_of 0 0)" by (simp add: host_of_def)
  have h2: "h_io_counters_99 ?h = Inr (counters_of 0 0)" by (simp add: host_of_def)
  have e: "\<exists>t\<in>set (h_ticks ?h). 3 \<le> tk_time t - h_time_107 ?h"
    by (simp add: host_of_def tick_of_def)
  have p1: "(0::real) < 1" by simp
  have p2: "map_of (counters_of 0 0) ''eth0'' = Some ?s" by (simp add: counters_of_def)
  have p3: "h_ticks ?h = [tick_of 100 True 131072 0] @ ?t # [tick_of 103 True 393216 0]"
    by (simp add: host_of_def)
  have p4: "monitor_loop ''eth0'' 3 1 False (h_time_107 ?h) [tick_of 100 True 131072 0]
      (initial_state ?s) = Next ?st"
    by (simp add: run_defs)
  have p5: "tk_time ?t - h_time_107 ?h < 3" by (simp add: host_of_def tick_of_def)
  note inst = loop_exceptions_caught [OF h1 h2, of 3 "''eth0''" 1 False]
  from inst e obtain alog where
    ends: "monitor_network_traffic ?h ''eth0'' 3 1 False
      = Some (Inr (accumulated ?h ''eth0'' 3 1 False (counters_of 0 0)), alog)"
    by blast
  from inst
  have "\<forall>initial_stats pre t rest st m.
         (0::real) < 1 \<longrightarrow> map_of (counters_of 0 0) ''eth0'' = Some initial_stats \<longrightarrow>
         h_ticks ?h = pre @ t # rest \<longrightarrow>
         monitor_loop ''eth0'' 3 1 False (h_time_107 ?h) pre (initial_state initial_stats)
           = Next st \<longrightarrow>
         tk_time t - h_time_107 ?h < 3 \<longrightarrow>
         (\<forall>nics. tk_if_stats_113 t = Inr nics \<longrightarrow>
           (\<forall>interface_stats. map_of nics ''eth0'' = Some interface_stats \<longrightarrow>
              (isup interface_stats \<or> False) \<longrightarrow>
             (\<forall>counters. tk_io_counters_124 t = Inr counters \<longrightarrow>
               (\<forall>current_stats. map_of counters ''eth0'' = Some current_stats \<longrightarrow>
                 (tk_debug_134 t = Inr () \<longrightarrow>
                   (\<forall>tcp_stats. tk_tcp_143 t = Inr tcp_stats \<longrightarrow>
                     (tk_udp_144 t = Inl (Exception m) \<longrightarrow>
                        monitor_network_traffic ?h ''eth0'' 3 1 False
                         = Some (Inr (lists_140 st (tk_time t - h_time_107 ?h)
                                   (total_bw current_stats st 1)),
                                 [Alert_error (Exception m)]))))))))"
    by blast
  from this [rule_format, OF p1 p2 p3 p4 p5, of _ _ _ _ _ "''AccessDenied''"]
  have r: "monitor_network_traffic ?h ''eth0'' 3 1 False
      = Some (Inr ([0, 1], [1, 1], [3], [2], [0]), [Alert_error (Exception ''AccessDenied'')])"
    by (simp add: tick_of_def counters_of_def nic_def host_of_def lists_140_def total_bw_def
        sent_bw_def recv_bw_def round1_def)
  from r ends show ?thesis by simp
qed

section \<open>Selecting the active interface\<close>

lemma auto_select_loop_find:
  "auto_select_loop (\<lambda>i. Inr counters) i names alog =
     (case find (\<lambda>n. \<exists>s. map_of counters n = Some s \<and> (0 < bytes_sent s \<or> 0 < bytes_recv s))
             names of
        None \<Rightarrow> (Inr None, alog @ [Alert_no_active_interface])
      | Some n \<Rightarrow> (Inr (Some n), alog))"
  by (induction names arbitrary: i) (auto simp add: send_alert_def split: option.splits)

lemma find_names:
  assumes "distinct (map fst counters)"
    and "\<forall>(name, s)\<in>set counters. 0 \<le> bytes_sent s \<and> 0 \<le> bytes_recv s"
    and "set xs \<subseteq> set counters"
  shows "find (\<lambda>n. \<exists>s. map_of counters n = Some s \<and> (0 < bytes_sent s \<or> 0 < bytes_recv s))
           (filter (\<lambda>n. n \<noteq> ''lo'') (map fst xs))
         = map_option fst
             (find (\<lambda>(name, s). name \<noteq> ''lo'' \<and> (bytes_sent s \<noteq> 0 \<or> bytes_recv s \<noteq> 0)) xs)"
  using assms(3)
proof (induction xs)
  case Nil
  then show ?case by simp
next
  case (Cons x xs)
  obtain n s where x: "x = (n, s)" by (cases x)
  with Cons.prems have m: "(n, s) \<in> set counters" by simp
  with assms(1) have l: "map_of counters n = Some s" by simp
  from m assms(2) have p: "0 \<le> bytes_sent s" "0 \<le> bytes_recv s" by auto
  from Cons.prems have "set xs \<subseteq> set counters" by simp
  from Cons.IH [OF this] x l p show ?case by auto
qed

lemma available_filter:
  "distinct names \<Longrightarrow>
     (if ''lo'' \<in> set names then remove1 ''lo'' names else names)
       = filter (\<lambda>n. n \<noteq> ''lo'') names"
  by (induction names) auto

text \<open>
  Claim C7. On a host whose counter table does not change during the call (a table has
  each name once, and byte counts are not negative), \<^verbatim>\<open>auto_select_interface\<close>
  returns what the specification of \<^verbatim>\<open>selectActiveInterface\<close> says: the first
  interface in the host's order, the loopback interface apart, with a sent or received
  byte count that is not zero, and none, with the alert of line 43, when there is no such
  interface.
\<close>

theorem auto_select_first_active:
  assumes "distinct (map fst counters)"
    and "\<forall>(name, s)\<in>set counters. 0 \<le> bytes_sent s \<and> 0 \<le> bytes_recv s"
  shows "auto_select_interface (Inr counters) (\<lambda>i. Inr counters)
           = (Inr (select_active_interface_spec counters),
              if select_active_interface_spec counters = None
              then [Alert_no_active_interface] else [])"
proof -
  have "get_available_interfaces (Inr counters)
          = Inr (filter (\<lambda>n. n \<noteq> ''lo'') (map fst counters))"
    using available_filter [OF assms(1)] by (simp add: get_available_interfaces_def Let_def)
  then show ?thesis
    using find_names [OF assms order_refl]
    by (simp add: auto_select_interface_def auto_select_loop_find
        select_active_interface_spec_def split: option.splits)
qed

theorem auto_select_first_active_witness:
  "auto_select_interface
     (Inr [(''eth0'', \<lparr>bytes_sent = 0, bytes_recv = 0\<rparr>),
           (''eth1'', \<lparr>bytes_sent = 100, bytes_recv = 50\<rparr>),
           (''eth2'', \<lparr>bytes_sent = 0, bytes_recv = 0\<rparr>)])
     (\<lambda>i. Inr [(''eth0'', \<lparr>bytes_sent = 0, bytes_recv = 0\<rparr>),
               (''eth1'', \<lparr>bytes_sent = 100, bytes_recv = 50\<rparr>),
               (''eth2'', \<lparr>bytes_sent = 0, bytes_recv = 0\<rparr>)])
     = (Inr (Some ''eth1''), [])
   \<and> auto_select_interface
       (Inr [(''lo'', \<lparr>bytes_sent = 10, bytes_recv = 10\<rparr>),
             (''eth0'', \<lparr>bytes_sent = 0, bytes_recv = 0\<rparr>)])
       (\<lambda>i. Inr [(''lo'', \<lparr>bytes_sent = 10, bytes_recv = 10\<rparr>),
                 (''eth0'', \<lparr>bytes_sent = 0, bytes_recv = 0\<rparr>)])
     = (Inr None, [Alert_no_active_interface])"
proof -
  let ?a = "[(''eth0'', \<lparr>bytes_sent = 0, bytes_recv = 0\<rparr>),
             (''eth1'', \<lparr>bytes_sent = 100, bytes_recv = 50\<rparr>),
             (''eth2'', \<lparr>bytes_sent = 0, bytes_recv = 0\<rparr>)]"
  let ?b = "[(''lo'', \<lparr>bytes_sent = 10, bytes_recv = 10\<rparr>),
             (''eth0'', \<lparr>bytes_sent = 0, bytes_recv = (0::int)\<rparr>)]"
  have a1: "distinct (map fst ?a)" by simp
  have a2: "\<forall>(name, s)\<in>set ?a. 0 \<le> bytes_sent s \<and> 0 \<le> bytes_recv s" by simp
  have b1: "distinct (map fst ?b)" by simp
  have b2: "\<forall>(name, s)\<in>set ?b. 0 \<le> bytes_sent s \<and> 0 \<le> bytes_recv s" by simp
  from auto_select_first_active [OF a1 a2] auto_select_first_active [OF b1 b2]
  show ?thesis by (simp add: select_active_interface_spec_def)
qed

end
